theory Spec2Isabelle
  imports Complex_Main "HOL-Library.Word"
begin

section \<open>The fragment of JavaScript the two filter scripts use\<close>

text \<open>
  The scripts compare values with \<open>==\<close> and \<open><=\<close> and branch on \<open>if (delta)\<close>. The
  operands are attribute values (\<open>getAttribute\<close> gives a string or \<open>null\<close>), the value of
  the version selector (a string) and the fields of a received message (any value that
  survives structured cloning). The model covers the primitive values undefined, null,
  booleans, numbers and strings, and objects as far as the three operations look at
  them; symbols and big integers are outside it.

  A JavaScript string is a sequence of 16-bit code units. A literal of the source is
  written \<open>lit ''master''\<close>.
\<close>

type_synonym jsstring = "16 word list"

definition cu :: "char \<Rightarrow> 16 word" where
  "cu c = of_char c"

definition lit :: "string \<Rightarrow> jsstring" where
  "lit s = map cu s"

text \<open>
  A Number is NaN, an infinity or a finite double, held as the rational it denotes. The
  two zeros are one value here: the scripts observe numbers through \<open>==\<close> and \<open><=\<close>
  only, and neither tells \<open>+0\<close> from \<open>-0\<close>.
\<close>

datatype jsnum = NaN | NegInfinity | Finite rat | PosInfinity

text \<open>
  An object reaches the scripts only as a field of a message: an array, a plain object,
  a String, Number or Boolean object, a Date and the like, each a fresh copy with the
  built-in prototype. The scripts do three things with it. \<open>if (delta)\<close> takes any
  object as true. \<open>==\<close> and \<open><=\<close> first turn it into a primitive with
  \<open>ToPrimitive\<close>, \<open>==\<close> with no hint and \<open><=\<close> with the hint number: the array
  \<open>["filterClear"]\<close> becomes the string \<open>filterClear\<close> under both, a Date becomes a
  string under the first and a number under the second. So an object is modelled by
  these two primitives, each a string, a number or a boolean.
\<close>

datatype object_primitive = AsString jsstring | AsNumber jsnum | AsBoolean bool

datatype jsval =
  JUndefined | JNull | JBool bool | JNum jsnum | JStr jsstring
  | JObject object_primitive object_primitive

datatype hint = HintDefault | HintNumber

fun primitive :: "object_primitive \<Rightarrow> jsval" where
  "primitive (AsString s) = JStr s"
| "primitive (AsNumber n) = JNum n"
| "primitive (AsBoolean b) = JBool b"

fun ToPrimitive :: "hint \<Rightarrow> jsval \<Rightarrow> jsval" where
  "ToPrimitive HintDefault (JObject d n) = primitive d"
| "ToPrimitive HintNumber (JObject d n) = primitive n"
| "ToPrimitive h x = x"

datatype error = TypeError

subsection \<open>StringToNumber\<close>

text \<open>
  The conversion of a string to a Number follows the grammar \<open>StringNumericLiteral\<close>:
  white space is trimmed, the empty string is zero, a decimal literal may carry a sign,
  a fraction and an exponent, a hexadecimal, octal or binary literal carries no sign,
  and everything else is NaN. The exact value of the literal is rounded to the nearest
  double (the language lets an implementation be less exact past the twentieth
  significant digit; the model rounds the exact value).
\<close>

definition StrWhiteSpaceChar :: "16 word \<Rightarrow> bool" where
  "StrWhiteSpaceChar c = (c \<in> set [0x9, 0xA, 0xB, 0xC, 0xD, 0x20, 0xA0, 0x1680,
     0x2000, 0x2001, 0x2002, 0x2003, 0x2004, 0x2005, 0x2006, 0x2007, 0x2008, 0x2009, 0x200A,
     0x2028, 0x2029, 0x202F, 0x205F, 0x3000, 0xFEFF])"

definition trim :: "jsstring \<Rightarrow> jsstring" where
  "trim s = rev (dropWhile StrWhiteSpaceChar (rev (dropWhile StrWhiteSpaceChar s)))"

definition DecimalDigit :: "16 word \<Rightarrow> bool" where
  "DecimalDigit c = (0x30 \<le> c \<and> c \<le> 0x39)"

definition HexDigit :: "16 word \<Rightarrow> bool" where
  "HexDigit c = (DecimalDigit c \<or> (0x41 \<le> c \<and> c \<le> 0x46) \<or> (0x61 \<le> c \<and> c \<le> 0x66))"

definition OctalDigit :: "16 word \<Rightarrow> bool" where
  "OctalDigit c = (0x30 \<le> c \<and> c \<le> 0x37)"

definition BinaryDigit :: "16 word \<Rightarrow> bool" where
  "BinaryDigit c = (c = 0x30 \<or> c = 0x31)"

definition digit_MV :: "16 word \<Rightarrow> int" where
  "digit_MV c = (if DecimalDigit c then uint c - 0x30
                 else if 0x61 \<le> c then uint c - 0x57 else uint c - 0x37)"

definition digits_MV :: "int \<Rightarrow> jsstring \<Rightarrow> int" where
  "digits_MV base ds = foldl (\<lambda>a c. base * a + digit_MV c) 0 ds"

text \<open>
  The mathematical value of a literal before rounding: \<open>Decimal m e\<close> is \<open>m * 10 ^ e\<close>.
\<close>

datatype literal_MV = Decimal int int | InfinityLiteral

definition DecimalDigits :: "jsstring \<Rightarrow> int option" where
  "DecimalDigits ds = (if ds \<noteq> [] \<and> list_all DecimalDigit ds then Some (digits_MV 10 ds) else None)"

definition SignedInteger :: "jsstring \<Rightarrow> int option" where
  "SignedInteger s =
     (case s of
        [] \<Rightarrow> None
      | c # ds \<Rightarrow>
          if c = cu CHR ''+'' then DecimalDigits ds
          else if c = cu CHR ''-'' then map_option uminus (DecimalDigits ds)
          else DecimalDigits s)"

definition ExponentPart_opt :: "jsstring \<Rightarrow> int option" where
  "ExponentPart_opt s =
     (case s of
        [] \<Rightarrow> Some 0
      | c # r \<Rightarrow> if c = cu CHR ''e'' \<or> c = cu CHR ''E'' then SignedInteger r else None)"

definition StrUnsignedDecimalLiteral :: "jsstring \<Rightarrow> literal_MV option" where
  "StrUnsignedDecimalLiteral u =
     (if u = lit ''Infinity'' then Some InfinityLiteral
      else
        let ip = takeWhile DecimalDigit u; r1 = dropWhile DecimalDigit u
        in if r1 \<noteq> [] \<and> hd r1 = cu CHR ''.'' then
             let fp = takeWhile DecimalDigit (tl r1); r2 = dropWhile DecimalDigit (tl r1)
             in if ip = [] \<and> fp = [] then None
                else map_option (\<lambda>e. Decimal (digits_MV 10 (ip @ fp)) (e - int (length fp)))
                       (ExponentPart_opt r2)
           else if ip = [] then None
           else map_option (\<lambda>e. Decimal (digits_MV 10 ip) e) (ExponentPart_opt r1))"

definition NonDecimalIntegerLiteral :: "jsstring \<Rightarrow> int option" where
  "NonDecimalIntegerLiteral u =
     (case u of
        z # x # ds \<Rightarrow>
          if z \<noteq> cu CHR ''0'' \<or> ds = [] then None
          else if (x = cu CHR ''x'' \<or> x = cu CHR ''X'') \<and> list_all HexDigit ds
            then Some (digits_MV 16 ds)
          else if (x = cu CHR ''o'' \<or> x = cu CHR ''O'') \<and> list_all OctalDigit ds
            then Some (digits_MV 8 ds)
          else if (x = cu CHR ''b'' \<or> x = cu CHR ''B'') \<and> list_all BinaryDigit ds
            then Some (digits_MV 2 ds)
          else None
      | _ \<Rightarrow> None)"

text \<open>
  Rounding a rational \<open>p / q\<close> with \<open>0 \<le> p\<close> and \<open>0 < q\<close> to the nearest double, ties to even: the exponent
  \<open>ex\<close> is \<open>\<lfloor>log\<^sub>2 (p / q)\<rfloor>\<close>, never taken below the smallest normal exponent;
  the spacing of the doubles there is \<open>2 ^ (ex - 52)\<close>; overflow gives infinity.
\<close>

function bit_length :: "int \<Rightarrow> int" where
  "bit_length n = (if n \<le> 0 then 0 else 1 + bit_length (n div 2))"
  by pat_completeness auto
termination
  by (relation "measure nat") auto

declare bit_length.simps [simp del]

definition scale2 :: "int \<times> int \<Rightarrow> int \<Rightarrow> int \<times> int" where
  "scale2 pq k = (if 0 \<le> k then (fst pq * 2 ^ nat k, snd pq) else (fst pq, snd pq * 2 ^ nat (- k)))"

definition round_half_even :: "int \<times> int \<Rightarrow> int" where
  "round_half_even ab =
     (let f = fst ab div snd ab; r = fst ab mod snd ab
      in if 2 * r < snd ab then f
         else if snd ab < 2 * r then f + 1
         else if even f then f else f + 1)"

definition RoundToDouble :: "int \<Rightarrow> int \<Rightarrow> jsnum" where
  "RoundToDouble p q =
     (if p = 0 then Finite 0
      else
        let d = bit_length p - bit_length q;
            lo = scale2 (p, q) (- d);
            ex = (if snd lo \<le> fst lo then d else d - 1);
            u = max ex (- 1022) - 52;
            n = round_half_even (scale2 (p, q) (- u));
            r = scale2 (n, 1) u
        in if 2 ^ 1024 * snd r \<le> fst r then PosInfinity
           else Finite (of_int (fst r) / of_int (snd r)))"

definition negate :: "jsnum \<Rightarrow> jsnum" where
  "negate x = (case x of NaN \<Rightarrow> NaN | NegInfinity \<Rightarrow> PosInfinity
               | PosInfinity \<Rightarrow> NegInfinity | Finite r \<Rightarrow> Finite (- r))"

definition RoundMVResult :: "literal_MV option \<Rightarrow> jsnum" where
  "RoundMVResult mv =
     (case mv of
        None \<Rightarrow> NaN
      | Some InfinityLiteral \<Rightarrow> PosInfinity
      | Some (Decimal m e) \<Rightarrow>
          if 0 \<le> e then RoundToDouble (m * 10 ^ nat e) 1 else RoundToDouble m (10 ^ nat (- e)))"

definition StringToNumber :: "jsstring \<Rightarrow> jsnum" where
  "StringToNumber s =
     (let t = trim s
      in case t of
           [] \<Rightarrow> Finite 0
         | c # u \<Rightarrow>
             if c = cu CHR ''+'' then RoundMVResult (StrUnsignedDecimalLiteral u)
             else if c = cu CHR ''-'' then negate (RoundMVResult (StrUnsignedDecimalLiteral u))
             else (case NonDecimalIntegerLiteral t of
                     Some n \<Rightarrow> RoundToDouble n 1
                   | None \<Rightarrow> RoundMVResult (StrUnsignedDecimalLiteral t)))"

subsection \<open>Conversions and comparisons\<close>

fun ToNumber :: "jsval \<Rightarrow> jsnum" where
  "ToNumber JUndefined = NaN"
| "ToNumber JNull = Finite 0"
| "ToNumber (JBool b) = (if b then Finite 1 else Finite 0)"
| "ToNumber (JNum n) = n"
| "ToNumber (JStr s) = StringToNumber s"
| "ToNumber (JObject d n) =
     (case n of
        AsString s \<Rightarrow> StringToNumber s
      | AsNumber x \<Rightarrow> x
      | AsBoolean b \<Rightarrow> (if b then Finite 1 else Finite 0))"

fun ToBoolean :: "jsval \<Rightarrow> bool" where
  "ToBoolean JUndefined = False"
| "ToBoolean JNull = False"
| "ToBoolean (JBool b) = b"
| "ToBoolean (JNum n) = (n \<noteq> NaN \<and> n \<noteq> Finite 0)"
| "ToBoolean (JStr s) = (s \<noteq> [])"
| "ToBoolean (JObject d n) = True"

fun Number_equal :: "jsnum \<Rightarrow> jsnum \<Rightarrow> bool" where
  "Number_equal NaN y = False"
| "Number_equal x NaN = False"
| "Number_equal x y = (x = y)"

text \<open>\<open>Number_lessThan x y\<close> is \<open>None\<close> where the language gives undefined (a NaN operand).\<close>

fun Number_lessThan :: "jsnum \<Rightarrow> jsnum \<Rightarrow> bool option" where
  "Number_lessThan NaN y = None"
| "Number_lessThan x NaN = None"
| "Number_lessThan PosInfinity y = Some False"
| "Number_lessThan x PosInfinity = Some True"
| "Number_lessThan x NegInfinity = Some False"
| "Number_lessThan NegInfinity y = Some True"
| "Number_lessThan (Finite a) (Finite b) = Some (a < b)"

text \<open>
  Two strings are compared code unit by code unit; a proper prefix is smaller.
\<close>

fun String_lessThan :: "jsstring \<Rightarrow> jsstring \<Rightarrow> bool" where
  "String_lessThan [] [] = False"
| "String_lessThan [] (y # ys) = True"
| "String_lessThan (x # xs) [] = False"
| "String_lessThan (x # xs) (y # ys) =
     (if x < y then True else if y < x then False else String_lessThan xs ys)"

fun IsLessThan_primitives :: "jsval \<Rightarrow> jsval \<Rightarrow> bool option" where
  "IsLessThan_primitives (JStr a) (JStr b) = Some (String_lessThan a b)"
| "IsLessThan_primitives x y = Number_lessThan (ToNumber x) (ToNumber y)"

definition IsLessThan :: "jsval \<Rightarrow> jsval \<Rightarrow> bool option" where
  "IsLessThan x y =
     IsLessThan_primitives (ToPrimitive HintNumber x) (ToPrimitive HintNumber y)"

text \<open>
  The operator \<open>a <= b\<close>: the language computes \<open>b < a\<close> and answers true exactly when
  that is false (not true, not undefined).
\<close>

definition js_le :: "jsval \<Rightarrow> jsval \<Rightarrow> bool" where
  "js_le a b = (IsLessThan b a = Some False)"

text \<open>The operator \<open>==\<close> on primitive values.\<close>

fun IsLooselyEqual_primitives :: "jsval \<Rightarrow> jsval \<Rightarrow> bool" where
  "IsLooselyEqual_primitives JUndefined y = (y = JUndefined \<or> y = JNull)"
| "IsLooselyEqual_primitives JNull y = (y = JUndefined \<or> y = JNull)"
| "IsLooselyEqual_primitives x JUndefined = False"
| "IsLooselyEqual_primitives x JNull = False"
| "IsLooselyEqual_primitives (JBool a) (JBool b) = (a = b)"
| "IsLooselyEqual_primitives (JStr a) (JStr b) = (a = b)"
| "IsLooselyEqual_primitives x y = Number_equal (ToNumber x) (ToNumber y)"

text \<open>
  The operator \<open>==\<close>: an object operand is compared through its primitive. (Two
  objects are equal only when they are one object. The scripts always have a string, a
  boolean or an attribute value on the right of \<open>==\<close>, never an object, and a message
  field is a copy that nothing else refers to.)
\<close>

fun IsLooselyEqual :: "jsval \<Rightarrow> jsval \<Rightarrow> bool" where
  "IsLooselyEqual (JObject a b) (JObject c d) = False"
| "IsLooselyEqual x y =
     IsLooselyEqual_primitives (ToPrimitive HintDefault x) (ToPrimitive HintDefault y)"

section \<open>Documents\<close>

text \<open>
  An element, as far as the scripts look at it: its tag, its attributes (\<open>class\<close> apart)
  and the tokens of its class list. A document is the list of its elements in tree
  order; nothing in the scripts adds or removes an element, so a position in that list
  is a stable reference to a node, and the static node list that \<open>querySelectorAll\<close>
  returns is a list of positions.
\<close>

record element =
  localName :: jsstring
  attributes :: "(jsstring \<times> jsstring) list"
  classList :: "jsstring list"

definition getAttribute :: "element \<Rightarrow> jsstring \<Rightarrow> jsval" where
  "getAttribute e name = (case map_of (attributes e) name of None \<Rightarrow> JNull | Some v \<Rightarrow> JStr v)"

definition hasAttribute :: "element \<Rightarrow> jsstring \<Rightarrow> bool" where
  "hasAttribute e name = (map_of (attributes e) name \<noteq> None)"

definition classList_remove :: "jsstring \<Rightarrow> element \<Rightarrow> element" where
  "classList_remove tok e = e\<lparr>classList := removeAll tok (classList e)\<rparr>"

definition classList_add :: "jsstring \<Rightarrow> element \<Rightarrow> element" where
  "classList_add tok e =
     (if tok \<in> set (classList e) then e else e\<lparr>classList := classList e @ [tok]\<rparr>)"

definition is_hidden :: "element \<Rightarrow> bool" where
  "is_hidden e = (lit ''hidden'' \<in> set (classList e))"

text \<open>
  The selector \<open>[data-version-first], [data-version-last]\<close> of \<open>filter-classes.js\<close> and the
  selector \<open>li[data-version-first], li[data-version-last]\<close> of the index script.
\<close>

definition matches_frame :: "element \<Rightarrow> bool" where
  "matches_frame e =
     (hasAttribute e (lit ''data-version-first'') \<or> hasAttribute e (lit ''data-version-last''))"

definition matches_selector :: "element \<Rightarrow> bool" where
  "matches_selector e =
     ((localName e = lit ''li'' \<and> hasAttribute e (lit ''data-version-first'')) \<or>
      (localName e = lit ''li'' \<and> hasAttribute e (lit ''data-version-last'')))"

definition querySelectorAll :: "(element \<Rightarrow> bool) \<Rightarrow> element list \<Rightarrow> nat list" where
  "querySelectorAll sel doc = filter (\<lambda>i. sel (doc ! i)) [0..<length doc]"

text \<open>
  The loop \<open>for (index = 0; index < classList.length; index++)\<close> over a static node list,
  with the loop body as a function on the visited element. (The loop counter is an
  undeclared variable, hence a property of the window; nothing reads it afterwards.)
\<close>

fun for_each :: "(element \<Rightarrow> element) \<Rightarrow> nat list \<Rightarrow> element list \<Rightarrow> element list" where
  "for_each body [] doc = doc"
| "for_each body (i # rest) doc = for_each body rest (doc[i := body (doc ! i)])"

section \<open>The frame filter controller (\<open>res/filter-classes.js\<close>)\<close>

definition filterClear_frame :: "element list \<Rightarrow> element list" where
  "filterClear_frame doc =
     (let classList = querySelectorAll matches_frame doc
      in for_each (classList_remove (lit ''hidden'')) classList doc)"

definition show_frame :: "jsval \<Rightarrow> jsval \<Rightarrow> element \<Rightarrow> bool" where
  "show_frame version delta classItem =
     (if ToBoolean delta then
        (IsLooselyEqual version (getAttribute classItem (lit ''data-version-first'')) \<or>
         IsLooselyEqual version (getAttribute classItem (lit ''data-version-last'')))
      else
        (IsLooselyEqual version (JStr (lit ''master'')) \<or>
         js_le (getAttribute classItem (lit ''data-version-first'')) version \<or>
         js_le (getAttribute classItem (lit ''data-version-last'')) version))"

definition apply_item_frame :: "jsval \<Rightarrow> jsval \<Rightarrow> element \<Rightarrow> element" where
  "apply_item_frame version delta classItem =
     (if show_frame version delta classItem then classList_remove (lit ''hidden'') classItem
      else classList_add (lit ''hidden'') classItem)"

definition filterApply_frame :: "jsval \<Rightarrow> jsval \<Rightarrow> element list \<Rightarrow> element list" where
  "filterApply_frame version delta doc =
     (let classList = querySelectorAll matches_frame doc
      in for_each (apply_item_frame version delta) classList doc)"

text \<open>
  The payload of a message event: an object with its fields (\<open>Object\<close>), or any
  other value (\<open>Value\<close>: a primitive, or an object that has none of the properties
  the handlers read, an array for one). Reading a property of \<open>undefined\<close> or \<open>null\<close>
  throws; a property that is not there reads as \<open>undefined\<close>.
\<close>

datatype jsdata = Value jsval | Object "(jsstring \<times> jsval) list"

definition get_property :: "jsdata \<Rightarrow> jsstring \<Rightarrow> error + jsval" where
  "get_property d name =
     (case d of
        Value JUndefined \<Rightarrow> Inl TypeError
      | Value JNull \<Rightarrow> Inl TypeError
      | Value _ \<Rightarrow> Inr JUndefined
      | Object props \<Rightarrow> (case map_of props name of None \<Rightarrow> Inr JUndefined | Some v \<Rightarrow> Inr v))"

text \<open>
  The window of the frame: its document and the queue of messages it has posted to its
  parent. A handler that throws leaves the state as it is at the throw: the result of a
  handler is the new state, or the error with the state reached.
\<close>

record frame_window =
  document :: "element list"
  parent :: "jsdata list"

definition message_frame :: "jsdata \<Rightarrow> frame_window \<Rightarrow> (error \<times> frame_window) + frame_window" where
  "message_frame data w =
     (case get_property data (lit ''method'') of
        Inl e \<Rightarrow> Inl (e, w)
      | Inr method \<Rightarrow>
          if IsLooselyEqual method (JStr (lit ''filterClear'')) then
            Inr (w\<lparr>document := filterClear_frame (document w)\<rparr>)
          else if IsLooselyEqual method (JStr (lit ''filterApply'')) then
            (case get_property data (lit ''version'') of
               Inl e \<Rightarrow> Inl (e, w)
             | Inr version \<Rightarrow>
                 (case get_property data (lit ''delta'') of
                    Inl e \<Rightarrow> Inl (e, w)
                  | Inr delta \<Rightarrow> Inr (w\<lparr>document := filterApply_frame version delta (document w)\<rparr>)))
          else Inr w)"

text \<open>On \<open>readystatechange\<close> the frame posts \<open>{"method": "getFilter"}\<close> to its parent.\<close>

definition readystatechange_frame :: "frame_window \<Rightarrow> frame_window" where
  "readystatechange_frame w =
     w\<lparr>parent := parent w @ [Object [(lit ''method'', JStr (lit ''getFilter''))]]\<rparr>"

section \<open>The selector controller (the index script)\<close>

text \<open>
  The outer page: its elements, the three controls the script fetches by id (the
  version selector \<open>tags\<close>, the checkbox \<open>viewModeDelta\<close> and its label
  \<open>viewModeDeltaLbl\<close>, each \<open>None\<close> when \<open>getElementById\<close> gives \<open>null\<close>) and the
  window of the frame \<open>iframeClass\<close>, as the queue of messages posted to it (\<open>None\<close> when
  there is no such frame). A change handler is \<open>null\<close> or the closure that the
  \<open>readystatechange\<close> handler installs.
\<close>

datatype handler = CallUpdate

record tags_element =
  tags_value :: jsstring
  tags_onchange :: "handler option"

record viewModeDelta_element =
  delta_disabled :: bool
  delta_checked :: bool
  delta_onchange :: "handler option"

record page =
  nodes :: "element list"
  tags :: "tags_element option"
  viewModeDelta :: "viewModeDelta_element option"
  viewModeDeltaLbl :: "jsstring list option"
  iframeClass :: "jsdata list option"

type_synonym outcome = "(error \<times> page) + page"

definition postMessage_iframeClass :: "jsdata \<Rightarrow> page \<Rightarrow> outcome" where
  "postMessage_iframeClass m s =
     (case iframeClass s of
        None \<Rightarrow> Inl (TypeError, s)
      | Some queue \<Rightarrow> Inr (s\<lparr>iframeClass := Some (queue @ [m])\<rparr>))"

definition filterClear_selector :: "page \<Rightarrow> outcome" where
  "filterClear_selector s =
     (let classList = querySelectorAll matches_selector (nodes s)
      in case postMessage_iframeClass (Object [(lit ''method'', JStr (lit ''filterClear''))]) s of
           Inl e \<Rightarrow> Inl e
         | Inr s1 \<Rightarrow>
             Inr (s1\<lparr>nodes := for_each (classList_remove (lit ''hidden'')) classList (nodes s1)\<rparr>))"

definition show_selector :: "jsval \<Rightarrow> jsval \<Rightarrow> element \<Rightarrow> bool" where
  "show_selector version delta classItem =
     (if ToBoolean delta then
        (IsLooselyEqual version (getAttribute classItem (lit ''data-version-first'')) \<or>
         IsLooselyEqual version (getAttribute classItem (lit ''data-version-last'')))
      else
        (IsLooselyEqual version (JStr (lit ''master'')) \<or>
         js_le (getAttribute classItem (lit ''data-version-first'')) version \<or>
         js_le (getAttribute classItem (lit ''data-version-last'')) version))"

definition apply_item_selector :: "jsval \<Rightarrow> jsval \<Rightarrow> element \<Rightarrow> element" where
  "apply_item_selector version delta classItem =
     (if show_selector version delta classItem then classList_remove (lit ''hidden'') classItem
      else classList_add (lit ''hidden'') classItem)"

definition filterApply_selector :: "jsval \<Rightarrow> jsval \<Rightarrow> page \<Rightarrow> outcome" where
  "filterApply_selector version delta s =
     (let classList = querySelectorAll matches_selector (nodes s)
      in case postMessage_iframeClass
                (Object [(lit ''method'', JStr (lit ''filterApply'')),
                         (lit ''version'', version), (lit ''delta'', delta)]) s of
           Inl e \<Rightarrow> Inl e
         | Inr s1 \<Rightarrow>
             Inr (s1\<lparr>nodes := for_each (apply_item_selector version delta) classList (nodes s1)\<rparr>))"

text \<open>
  The closure \<open>update\<close>. Its variables \<open>selection\<close>, \<open>viewModeDelta\<close> and
  \<open>viewModeDeltaLbl\<close> are the controls of the page.
\<close>

definition delta_argument :: "viewModeDelta_element \<Rightarrow> jsval" where
  "delta_argument vmd = JBool (delta_disabled vmd = False \<and> delta_checked vmd)"

definition update :: "page \<Rightarrow> outcome" where
  "update s =
     (case tags s of
        None \<Rightarrow> Inl (TypeError, s)
      | Some selection \<Rightarrow>
          if IsLooselyEqual (JStr (tags_value selection)) (JStr (lit ''master'')) then
            (case filterClear_selector s of
               Inl e \<Rightarrow> Inl e
             | Inr s1 \<Rightarrow>
                 (case viewModeDelta s1 of
                    None \<Rightarrow> Inl (TypeError, s1)
                  | Some vmd \<Rightarrow>
                      filterApply_selector (JStr (tags_value selection)) (delta_argument vmd) s1))
          else
            (case viewModeDelta s of
               None \<Rightarrow> Inl (TypeError, s)
             | Some vmd \<Rightarrow>
                 let vmd1 = vmd\<lparr>delta_disabled := False\<rparr>;
                     s1 = s\<lparr>viewModeDelta := Some vmd1\<rparr>
                 in (case viewModeDeltaLbl s1 of
                       None \<Rightarrow> Inl (TypeError, s1)
                     | Some lbl \<Rightarrow>
                         let s2 = s1\<lparr>viewModeDeltaLbl := Some (removeAll (lit ''hidden'') lbl)\<rparr>
                         in filterApply_selector (JStr (tags_value selection))
                              (delta_argument vmd1) s2)))"

definition readystatechange_selector :: "page \<Rightarrow> outcome" where
  "readystatechange_selector s =
     (case tags s of
        None \<Rightarrow> Inl (TypeError, s)
      | Some selection \<Rightarrow>
          let s1 = s\<lparr>tags := Some (selection\<lparr>tags_onchange := Some CallUpdate\<rparr>)\<rparr>
          in (case viewModeDelta s1 of
                None \<Rightarrow> Inl (TypeError, s1)
              | Some vmd \<Rightarrow>
                  Inr (s1\<lparr>viewModeDelta := Some (vmd\<lparr>delta_onchange := Some CallUpdate\<rparr>)\<rparr>)))"

definition message_selector :: "jsdata \<Rightarrow> page \<Rightarrow> outcome" where
  "message_selector data s =
     (case get_property data (lit ''method'') of
        Inl e \<Rightarrow> Inl (e, s)
      | Inr method \<Rightarrow>
          if IsLooselyEqual method (JStr (lit ''getFilter'')) then
            (case tags s of
               None \<Rightarrow> Inl (TypeError, s)
             | Some selection \<Rightarrow>
                 (case tags_onchange selection of
                    None \<Rightarrow> Inl (TypeError, s)
                  | Some CallUpdate \<Rightarrow> update s))
          else Inr s)"

text \<open>The state a handler leaves behind, thrown or not.\<close>

definition state_of :: "outcome \<Rightarrow> page" where
  "state_of r = (case r of Inl (e, s) \<Rightarrow> s | Inr s \<Rightarrow> s)"

text \<open>
  Whether the \<open>readystatechange\<close> handler has bound the change handler of the version
  selector yet.
\<close>

definition change_handler_bound :: "page \<Rightarrow> bool" where
  "change_handler_bound s =
     (case tags s of None \<Rightarrow> False | Some selection \<Rightarrow> tags_onchange selection \<noteq> None)"

text \<open>
  The frame handles the messages of its queue one after the other; a handler that
  throws ends that event only.
\<close>

fun deliver :: "jsdata list \<Rightarrow> frame_window \<Rightarrow> frame_window" where
  "deliver [] w = w"
| "deliver (m # ms) w =
     deliver ms (case message_frame m w of Inl (e, w') \<Rightarrow> w' | Inr w' \<Rightarrow> w')"

text \<open>
  The delta flag \<open>update\<close> passes on: at \<open>master\<close> the checkbox counts only while it is
  not disabled, at any other version \<open>update\<close> enables it first.
\<close>

definition effective_delta :: "tags_element \<Rightarrow> viewModeDelta_element \<Rightarrow> jsval" where
  "effective_delta selection vmd =
     (if tags_value selection = lit ''master'' then delta_argument vmd
      else JBool (delta_checked vmd))"

section \<open>Sample documents\<close>

text \<open>
  An item present from 1.0 to 1.2 and hidden at the moment, an item introduced in 2.0
  that has no \<open>data-version-last\<close>, and a hidden item that carries neither attribute.
\<close>

definition item_1_0_to_1_2 :: element where
  "item_1_0_to_1_2 =
     \<lparr>localName = lit ''li'',
      attributes = [(lit ''data-version-first'', lit ''1.0''), (lit ''data-version-last'', lit ''1.2'')],
      classList = [lit ''hidden'']\<rparr>"

definition item_since_2_0 :: element where
  "item_since_2_0 =
     \<lparr>localName = lit ''li'',
      attributes = [(lit ''data-version-first'', lit ''2.0'')],
      classList = []\<rparr>"

definition item_untagged :: element where
  "item_untagged = \<lparr>localName = lit ''li'', attributes = [], classList = [lit ''hidden'']\<rparr>"

text \<open>A block of the frame document with the attributes of the first item.\<close>

definition block_1_0_to_1_2 :: element where
  "block_1_0_to_1_2 =
     \<lparr>localName = lit ''div'',
      attributes = [(lit ''data-version-first'', lit ''1.0''), (lit ''data-version-last'', lit ''1.2'')],
      classList = []\<rparr>"

definition sample_doc :: "element list" where
  "sample_doc = [item_1_0_to_1_2, item_since_2_0, item_untagged]"

definition sample_frame :: frame_window where
  "sample_frame = \<lparr>document = sample_doc, parent = []\<rparr>"

definition sample_page :: page where
  "sample_page =
     \<lparr>nodes = sample_doc,
      tags = Some \<lparr>tags_value = lit ''1.2'', tags_onchange = Some CallUpdate\<rparr>,
      viewModeDelta = Some \<lparr>delta_disabled = False, delta_checked = False,
                             delta_onchange = Some CallUpdate\<rparr>,
      viewModeDeltaLbl = Some [],
      iframeClass = Some []\<rparr>"


text \<open>The same page before its \<open>readystatechange\<close> handler has run.\<close>

definition early_page :: page where
  "early_page =
     \<lparr>nodes = sample_doc,
      tags = Some \<lparr>tags_value = lit ''1.2'', tags_onchange = None\<rparr>,
      viewModeDelta = Some \<lparr>delta_disabled = False, delta_checked = False,
                             delta_onchange = None\<rparr>,
      viewModeDeltaLbl = Some [],
      iframeClass = Some []\<rparr>"

section \<open>The loop and the node list\<close>

lemma length_for_each [simp]: "length (for_each body ns doc) = length doc"
  by (induction ns arbitrary: doc) simp_all

lemma nth_for_each:
  "distinct ns \<Longrightarrow> j < length doc \<Longrightarrow>
   for_each body ns doc ! j = (if j \<in> set ns then body (doc ! j) else doc ! j)"
proof (induction ns arbitrary: doc)
  case Nil
  then show ?case by simp
next
  case (Cons i rest)
  let ?doc = "doc[i := body (doc ! i)]"
  from Cons.prems have d: "distinct rest" and i: "i \<notin> set rest" by simp_all
  from Cons.prems have j: "j < length ?doc" by simp
  have "for_each body (i # rest) doc ! j = for_each body rest ?doc ! j" by simp
  also have "\<dots> = (if j \<in> set rest then body (?doc ! j) else ?doc ! j)"
    by (rule Cons.IH [OF d j])
  also have "\<dots> = (if j \<in> set (i # rest) then body (doc ! j) else doc ! j)"
    using i Cons.prems(2) by (cases "j = i") auto
  finally show ?case .
qed

lemma distinct_querySelectorAll [simp]: "distinct (querySelectorAll sel doc)"
  by (simp add: querySelectorAll_def)

lemma set_querySelectorAll:
  "set (querySelectorAll sel doc) = {i. i < length doc \<and> sel (doc ! i)}"
  by (auto simp: querySelectorAll_def)

text \<open>
  Running a loop body over the elements a query selects changes exactly those elements,
  each once.
\<close>

lemma for_each_querySelectorAll:
  "for_each body (querySelectorAll sel doc) doc = map (\<lambda>e. if sel e then body e else e) doc"
  by (rule nth_equalityI) (simp_all add: nth_for_each set_querySelectorAll)

lemma filterClear_frame_map:
  "filterClear_frame doc =
     map (\<lambda>e. if matches_frame e then classList_remove (lit ''hidden'') e else e) doc"
  by (simp add: filterClear_frame_def for_each_querySelectorAll)

lemma filterApply_frame_map:
  "filterApply_frame version delta doc =
     map (\<lambda>e. if matches_frame e then apply_item_frame version delta e else e) doc"
  by (simp add: filterApply_frame_def for_each_querySelectorAll)

lemma filterClear_selector_eq:
  "filterClear_selector s =
     (case iframeClass s of
        None \<Rightarrow> Inl (TypeError, s)
      | Some queue \<Rightarrow>
          Inr (s\<lparr>iframeClass := Some (queue @ [Object [(lit ''method'', JStr (lit ''filterClear''))]]),
                 nodes := map (\<lambda>e. if matches_selector e
                                     then classList_remove (lit ''hidden'') e else e) (nodes s)\<rparr>))"
  by (simp add: filterClear_selector_def postMessage_iframeClass_def for_each_querySelectorAll
      split: option.splits)

lemma filterApply_selector_eq:
  "filterApply_selector version delta s =
     (case iframeClass s of
        None \<Rightarrow> Inl (TypeError, s)
      | Some queue \<Rightarrow>
          Inr (s\<lparr>iframeClass := Some (queue @ [Object [(lit ''method'', JStr (lit ''filterApply'')),
                         (lit ''version'', version), (lit ''delta'', delta)]]),
                 nodes := map (\<lambda>e. if matches_selector e
                                     then apply_item_selector version delta e else e) (nodes s)\<rparr>))"
  by (simp add: filterApply_selector_def postMessage_iframeClass_def for_each_querySelectorAll
      split: option.splits)

section \<open>What a change of the class list leaves alone\<close>

lemma getAttribute_classList_ops [simp]:
  "getAttribute (classList_remove tok e) name = getAttribute e name"
  "getAttribute (classList_add tok e) name = getAttribute e name"
  by (simp_all add: classList_remove_def classList_add_def getAttribute_def)

lemma classList_ops_keep [simp]:
  "attributes (classList_remove tok e) = attributes e"
  "attributes (classList_add tok e) = attributes e"
  "localName (classList_remove tok e) = localName e"
  "localName (classList_add tok e) = localName e"
  by (simp_all add: classList_remove_def classList_add_def)

lemma matches_classList_ops [simp]:
  "matches_frame (classList_remove tok e) = matches_frame e"
  "matches_frame (classList_add tok e) = matches_frame e"
  "matches_selector (classList_remove tok e) = matches_selector e"
  "matches_selector (classList_add tok e) = matches_selector e"
  by (simp_all add: matches_frame_def matches_selector_def hasAttribute_def
      classList_remove_def classList_add_def)

lemma show_classList_ops [simp]:
  "show_frame v d (classList_remove tok e) = show_frame v d e"
  "show_frame v d (classList_add tok e) = show_frame v d e"
  "show_selector v d (classList_remove tok e) = show_selector v d e"
  "show_selector v d (classList_add tok e) = show_selector v d e"
  by (simp_all add: show_frame_def show_selector_def)

lemma is_hidden_classList_ops [simp]:
  "\<not> is_hidden (classList_remove (lit ''hidden'') e)"
  "is_hidden (classList_add (lit ''hidden'') e)"
  by (simp_all add: is_hidden_def classList_remove_def classList_add_def)

lemma classList_ops_idem [simp]:
  "classList_remove tok (classList_remove tok e) = classList_remove tok e"
  "classList_add tok (classList_add tok e) = classList_add tok e"
  by (simp_all add: classList_remove_def classList_add_def)

lemma is_hidden_apply_item [simp]:
  "is_hidden (apply_item_frame v d e) = (\<not> show_frame v d e)"
  "is_hidden (apply_item_selector v d e) = (\<not> show_selector v d e)"
  by (simp_all add: apply_item_frame_def apply_item_selector_def)

lemma apply_item_idem [simp]:
  "apply_item_frame v d (apply_item_frame v d e) = apply_item_frame v d e"
  "apply_item_selector v d (apply_item_selector v d e) = apply_item_selector v d e"
  by (simp_all add: apply_item_frame_def apply_item_selector_def)

lemma matches_apply_item [simp]:
  "matches_frame (apply_item_frame v d e) = matches_frame e"
  "matches_selector (apply_item_selector v d e) = matches_selector e"
  by (simp_all add: apply_item_frame_def apply_item_selector_def)

section \<open>The comparisons the visibility rule makes\<close>

text \<open>\<open>String_lessThan\<close> is the strict lexicographic order on code units.\<close>

lemma String_lessThan_lexord: "String_lessThan a b = ((a, b) \<in> lexord {(x, y). x < y})"
  by (induction a b rule: String_lessThan.induct) auto

lemma js_le_JStr_JStr: "js_le (JStr a) (JStr b) = (\<not> String_lessThan b a)"
  by (simp add: js_le_def IsLessThan_def)

text \<open>
  An absent attribute reads as \<open>null\<close>, and \<open>null <= version\<close> is a comparison of
  numbers: it holds exactly when the version string reads as a number that is not
  negative.
\<close>

lemma js_le_JNull_JStr:
  "js_le JNull (JStr v) =
     (case StringToNumber v of
        NaN \<Rightarrow> False | NegInfinity \<Rightarrow> False | Finite r \<Rightarrow> 0 \<le> r | PosInfinity \<Rightarrow> True)"
  by (cases "StringToNumber v") (auto simp: js_le_def IsLessThan_def)

lemma Number_equal_NaN [simp]: "Number_equal n NaN = False"
  by (cases n) simp_all

lemma Number_lessThan_NaN [simp]: "Number_lessThan n NaN = None"
  by (cases n) simp_all

lemma IsLessThan_primitives_JUndefined [simp]: "IsLessThan_primitives JUndefined p = None"
  by (cases p) simp_all

lemma js_le_JUndefined [simp]: "js_le x JUndefined = False"
  by (simp add: js_le_def IsLessThan_def)

lemma StringToNumber_names:
  "StringToNumber (lit ''master'') = NaN"
  "StringToNumber (lit ''getFilter'') = NaN"
  "StringToNumber (lit ''filterClear'') = NaN"
  "StringToNumber (lit ''filterApply'') = NaN"
  by code_simp+

lemma names_distinct:
  "lit ''filterApply'' \<noteq> lit ''filterClear''"
  "lit ''version'' \<noteq> lit ''method''"
  "lit ''delta'' \<noteq> lit ''method''"
  "lit ''reload'' \<noteq> lit ''filterClear''"
  "lit ''reload'' \<noteq> lit ''filterApply''"
  "lit ''reload'' \<noteq> lit ''getFilter''"
  "lit ''1.0'' \<noteq> lit ''1.1''"
  "lit ''1.2'' \<noteq> lit ''1.1''"
  "lit ''1.2'' \<noteq> lit ''1.0''"
  "lit ''delta'' \<noteq> lit ''version''"
  "lit ''1.2'' \<noteq> lit ''master''"
  by code_simp+

text \<open>
  A string that does not read as a number is loosely equal to itself and to the objects
  that \<open>ToPrimitive\<close> turns into it, and to nothing else.
\<close>

lemma IsLooselyEqual_primitives_JStr_iff:
  "StringToNumber name = NaN \<Longrightarrow> IsLooselyEqual_primitives p (JStr name) = (p = JStr name)"
  by (cases p) auto

lemma IsLooselyEqual_JStr_iff:
  "StringToNumber name = NaN \<Longrightarrow>
   IsLooselyEqual m (JStr name) = (ToPrimitive HintDefault m = JStr name)"
  by (cases m) (simp_all add: IsLooselyEqual_primitives_JStr_iff)

lemma IsLooselyEqual_JStr_getAttribute:
  "IsLooselyEqual (JStr v) (getAttribute e name) = (getAttribute e name = JStr v)"
  by (auto simp: getAttribute_def split: option.splits)

lemma show_frame_undefined: "show_frame JUndefined JUndefined e = False"
  by (simp add: show_frame_def)

lemma show_frame_master: "show_frame (JStr (lit ''master'')) (JBool False) e"
  by (simp add: show_frame_def)

lemma show_selector_master: "show_selector (JStr (lit ''master'')) (JBool False) e"
  by (simp add: show_selector_def)

lemma show_frame_delta:
  "show_frame (JStr v) (JBool True) e =
     (getAttribute e (lit ''data-version-first'') = JStr v \<or>
      getAttribute e (lit ''data-version-last'') = JStr v)"
  by (simp add: show_frame_def IsLooselyEqual_JStr_getAttribute del: IsLooselyEqual.simps)

lemma show_selector_delta:
  "show_selector (JStr v) (JBool True) e =
     (getAttribute e (lit ''data-version-first'') = JStr v \<or>
      getAttribute e (lit ''data-version-last'') = JStr v)"
  by (simp add: show_selector_def IsLooselyEqual_JStr_getAttribute del: IsLooselyEqual.simps)

text \<open>
  In cumulative mode, an element that carries both attributes is shown exactly when the
  version is \<open>master\<close> or one of the two attribute values is lexicographically at most
  the version.
\<close>

lemma show_frame_cumulative_both:
  "getAttribute e (lit ''data-version-first'') = JStr f \<Longrightarrow>
   getAttribute e (lit ''data-version-last'') = JStr l \<Longrightarrow>
   show_frame (JStr v) (JBool False) e =
     (v = lit ''master'' \<or> \<not> String_lessThan v f \<or> \<not> String_lessThan v l)"
  by (simp add: show_frame_def js_le_JStr_JStr)

text \<open>
  The comparison \<open>classItem.getAttribute(name) <= version\<close> for a version string, in
  full: lexicographic where the attribute is there, numeric against zero where it is not.
\<close>

lemma attribute_comparison_rule:
  "js_le (getAttribute e name) (JStr v) =
     (case map_of (attributes e) name of
        Some a \<Rightarrow> \<not> String_lessThan v a
      | None \<Rightarrow>
          (case StringToNumber v of
             NaN \<Rightarrow> False | NegInfinity \<Rightarrow> False | Finite r \<Rightarrow> 0 \<le> r | PosInfinity \<Rightarrow> True))"
  by (simp add: getAttribute_def js_le_JStr_JStr js_le_JNull_JStr split: option.splits)

text \<open>
  In delta mode a version that is \<open>undefined\<close> (a message without the field) is loosely
  equal to the \<open>null\<close> of an absent attribute; a version string never is.
\<close>

lemma show_frame_delta_undefined:
  "show_frame JUndefined (JBool True) e =
     (getAttribute e (lit ''data-version-first'') = JNull \<or>
      getAttribute e (lit ''data-version-last'') = JNull)"
  by (auto simp add: show_frame_def getAttribute_def split: option.splits)

lemma message_frame_filterClear:
  "message_frame (Object [(lit ''method'', JStr (lit ''filterClear''))]) w =
     Inr (w\<lparr>document := filterClear_frame (document w)\<rparr>)"
  by (simp add: message_frame_def get_property_def)

lemma message_frame_filterApply:
  "message_frame (Object [(lit ''method'', JStr (lit ''filterApply'')),
       (lit ''version'', version), (lit ''delta'', delta)]) w =
     Inr (w\<lparr>document := filterApply_frame version delta (document w)\<rparr>)"
  by (simp add: message_frame_def get_property_def names_distinct IsLooselyEqual_JStr_iff
      StringToNumber_names)

section \<open>Facts about the sample documents\<close>

lemma sample_facts:
  "iframeClass sample_page \<noteq> None"
  "nodes sample_page = sample_doc"
  "document sample_frame = sample_doc"
  "length sample_doc = 3"
  "sample_doc ! 0 = item_1_0_to_1_2"
  "sample_doc ! Suc 0 = item_since_2_0"
  "sample_doc ! 2 = item_untagged"
  by (simp_all add: sample_page_def sample_doc_def sample_frame_def)

lemma sample_matches:
  "matches_frame item_1_0_to_1_2" "matches_selector item_1_0_to_1_2"
  "matches_frame item_since_2_0" "matches_selector item_since_2_0"
  "\<not> hasAttribute item_untagged (lit ''data-version-first'')"
  "\<not> hasAttribute item_untagged (lit ''data-version-last'')"
  by code_simp+

lemma sample_attributes:
  "getAttribute item_1_0_to_1_2 (lit ''data-version-first'') = JStr (lit ''1.0'')"
  "getAttribute item_1_0_to_1_2 (lit ''data-version-last'') = JStr (lit ''1.2'')"
  "getAttribute item_since_2_0 (lit ''data-version-first'') = JStr (lit ''2.0'')"
  "getAttribute item_since_2_0 (lit ''data-version-last'') = JNull"
  "getAttribute block_1_0_to_1_2 (lit ''data-version-first'') = JStr (lit ''1.0'')"
  "getAttribute block_1_0_to_1_2 (lit ''data-version-last'') = JStr (lit ''1.2'')"
  by code_simp+

lemma sample_hidden:
  "is_hidden item_1_0_to_1_2" "\<not> is_hidden item_since_2_0" "is_hidden item_untagged"
  by code_simp+

lemma sample_controls:
  "tags sample_page = Some \<lparr>tags_value = lit ''1.2'', tags_onchange = Some CallUpdate\<rparr>"
  "viewModeDelta sample_page =
     Some \<lparr>delta_disabled = False, delta_checked = False, delta_onchange = Some CallUpdate\<rparr>"
  "viewModeDeltaLbl sample_page \<noteq> None"
  "iframeClass sample_page = Some []"
  by (simp_all add: sample_page_def)

lemma sample_shows:
  "show_frame (JStr (lit ''1.2'')) (JBool False) item_1_0_to_1_2"
  "show_selector (JStr (lit ''1.2'')) (JBool False) item_1_0_to_1_2"
  "StringToNumber (lit ''1.2'') = Finite (5404319552844595 / 4503599627370496)"
  by code_simp+

lemma early_page_unbound: "\<not> change_handler_bound early_page"
  by (simp add: change_handler_bound_def early_page_def)


lemma get_property_getFilter:
  "get_property (Object [(lit ''method'', JStr (lit ''getFilter''))]) (lit ''method'') =
     Inr (JStr (lit ''getFilter''))"
  by (simp add: get_property_def)

section \<open>Cumulative mode\<close>

text \<open>
  Claim C1. In cumulative mode an element is shown iff the version is \<open>master\<close> or one
  of its two attribute values is at most the version in the lexicographic order of
  strings; so under version \<open>1.2\<close> an element with \<open>data-version-first="1.0"\<close> is visible
  and an element with \<open>data-version-first="2.0"\<close> and no \<open>data-version-last\<close> is hidden.

  The code does not hide the second element. Its missing attribute reads as \<open>null\<close>, and
  \<open>null <= "1.2"\<close> is the comparison \<open>0 \<le> 1.2\<close> of numbers, which holds: the element
  is shown, in both documents. The theorem evaluates both controllers there.
\<close>

theorem absent_last_attribute_shown:
  "show_frame (JStr (lit ''1.2'')) (JBool False) item_since_2_0 \<and>
   \<not> is_hidden (filterApply_frame (JStr (lit ''1.2'')) (JBool False) sample_doc ! 1) \<and>
   show_selector (JStr (lit ''1.2'')) (JBool False) item_since_2_0 \<and>
   \<not> is_hidden
       (nodes (state_of (filterApply_selector (JStr (lit ''1.2'')) (JBool False) sample_page)) ! 1)"
  by code_simp

text \<open>
  The rest of the claim holds: the first sample item, hidden before, is visible under
  \<open>1.2\<close> (and \<open>show_frame_cumulative_both\<close> is the rule for an element with both
  attributes). The same second element is hidden under \<open>1.2.0\<close>, a version string that
  does not read as a number.
\<close>

lemma first_1_0_visible_under_1_2:
  "is_hidden (sample_doc ! 0) \<and>
   \<not> is_hidden (filterApply_frame (JStr (lit ''1.2'')) (JBool False) sample_doc ! 0)"
  by code_simp

lemma since_2_0_hidden_under_1_2_0:
  "is_hidden (filterApply_frame (JStr (lit ''1.2.0'')) (JBool False) sample_doc ! 1)"
  by code_simp

section \<open>A request that arrives before the change handler is bound\<close>

text \<open>
  Claim C2. If \<open>{method: "getFilter"}\<close> reaches the outer document before its
  \<open>readystatechange\<close> handler has bound the change handler of the version selector, the
  message handler completes without throwing, changes no visibility and sends nothing.

  The handler does throw: \<open>selection.onchange()\<close> calls \<open>null\<close> (or \<open>selection\<close> itself
  is \<open>null\<close>), a TypeError. As amended: the handler throws a TypeError, and the page is
  as it was, so no element changed and no message was sent.
\<close>

theorem getFilter_before_binding_throws:
  "get_property data (lit ''method'') = Inr (JStr (lit ''getFilter'')) \<and>
   \<not> change_handler_bound s \<longrightarrow>
     message_selector data s = Inl (TypeError, s)"
  by (auto simp add: message_selector_def change_handler_bound_def split: option.splits)

theorem getFilter_before_binding_throws_witness:
  "get_property (Object [(lit ''method'', JStr (lit ''getFilter''))]) (lit ''method'') =
     Inr (JStr (lit ''getFilter'')) \<and>
   \<not> change_handler_bound early_page \<and>
   message_selector (Object [(lit ''method'', JStr (lit ''getFilter''))]) early_page =
     Inl (TypeError, early_page)"
  using getFilter_before_binding_throws
    [of "Object [(lit ''method'', JStr (lit ''getFilter''))]" early_page]
  by (simp add: early_page_unbound get_property_getFilter)

theorem getFilter_before_binding_counterexample:
  "message_selector (Object [(lit ''method'', JStr (lit ''getFilter''))]) early_page \<noteq>
     Inr early_page"
  by (simp add: message_selector_def get_property_def early_page_def)

text \<open>
  Once the \<open>readystatechange\<close> handler has found the selector, the change handler is
  bound, and the request runs \<open>update\<close>.
\<close>

lemma readystatechange_binds:
  "tags s \<noteq> None \<Longrightarrow> change_handler_bound (state_of (readystatechange_selector s))"
  by (auto simp add: readystatechange_selector_def change_handler_bound_def state_of_def Let_def
      split: option.splits)

lemma getFilter_after_binding:
  "change_handler_bound s \<Longrightarrow>
   message_selector (Object [(lit ''method'', JStr (lit ''getFilter''))]) s = update s"
  by (auto simp add: message_selector_def get_property_def change_handler_bound_def
      split: option.splits handler.splits)

section \<open>Delta mode\<close>

text \<open>
  Claim C3. In delta mode (\<open>delta = true\<close>), \<open>filterApply(version, delta)\<close> leaves a
  tagged element visible iff the version string is equal to its \<open>data-version-first\<close> or
  to its \<open>data-version-last\<close>: an element with first \<open>1.0\<close> and last \<open>1.2\<close> is hidden under
  \<open>1.1\<close> and visible under \<open>1.0\<close>. In the frame every element the query selects, in the
  outer page (whose frame exists) every list item it selects.
\<close>

theorem filterApply_delta_exact:
  "(i < length doc \<and> matches_frame (doc ! i) \<longrightarrow>
      (\<not> is_hidden (filterApply_frame (JStr v) (JBool True) doc ! i)) =
      (getAttribute (doc ! i) (lit ''data-version-first'') = JStr v \<or>
       getAttribute (doc ! i) (lit ''data-version-last'') = JStr v)) \<and>
   (iframeClass s \<noteq> None \<and> j < length (nodes s) \<and> matches_selector (nodes s ! j) \<longrightarrow>
      (\<exists>s'. filterApply_selector (JStr v) (JBool True) s = Inr s' \<and>
         (\<not> is_hidden (nodes s' ! j)) =
         (getAttribute (nodes s ! j) (lit ''data-version-first'') = JStr v \<or>
          getAttribute (nodes s ! j) (lit ''data-version-last'') = JStr v)))"
  by (auto simp add: filterApply_frame_map filterApply_selector_eq show_frame_delta
      show_selector_delta)

theorem filterApply_delta_exact_witness:
  "0 < length sample_doc \<and> matches_frame (sample_doc ! 0) \<and>
   is_hidden (filterApply_frame (JStr (lit ''1.1'')) (JBool True) sample_doc ! 0) \<and>
   \<not> is_hidden (filterApply_frame (JStr (lit ''1.0'')) (JBool True) sample_doc ! 0) \<and>
   iframeClass sample_page \<noteq> None \<and> 0 < length (nodes sample_page) \<and>
   matches_selector (nodes sample_page ! 0) \<and>
   (\<exists>s'. filterApply_selector (JStr (lit ''1.1'')) (JBool True) sample_page = Inr s' \<and>
      is_hidden (nodes s' ! 0)) \<and>
   (\<exists>s'. filterApply_selector (JStr (lit ''1.0'')) (JBool True) sample_page = Inr s' \<and>
      \<not> is_hidden (nodes s' ! 0))"
  using filterApply_delta_exact [of 0 sample_doc "lit ''1.1''" sample_page 0]
    filterApply_delta_exact [of 0 sample_doc "lit ''1.0''" sample_page 0]
  by (simp add: sample_facts sample_matches sample_attributes names_distinct)

section \<open>The version master\<close>

text \<open>
  Claim C4. Whatever its attribute values and whatever its visibility before,
  \<open>filterApply("master", false)\<close> leaves every tagged element visible: in the frame
  every element the query selects, in the outer page (whose frame exists) every list
  item it selects.
\<close>

theorem filterApply_master_shows_all:
  "(i < length doc \<and> matches_frame (doc ! i) \<longrightarrow>
      \<not> is_hidden (filterApply_frame (JStr (lit ''master'')) (JBool False) doc ! i)) \<and>
   (iframeClass s \<noteq> None \<and> j < length (nodes s) \<and> matches_selector (nodes s ! j) \<longrightarrow>
      (\<exists>s'. filterApply_selector (JStr (lit ''master'')) (JBool False) s = Inr s' \<and>
         \<not> is_hidden (nodes s' ! j)))"
  by (auto simp add: filterApply_frame_map filterApply_selector_eq show_frame_master
      show_selector_master)

theorem filterApply_master_shows_all_witness:
  "0 < length sample_doc \<and> matches_frame (sample_doc ! 0) \<and> is_hidden (sample_doc ! 0) \<and>
   \<not> is_hidden (filterApply_frame (JStr (lit ''master'')) (JBool False) sample_doc ! 0) \<and>
   iframeClass sample_page \<noteq> None \<and> 0 < length (nodes sample_page) \<and>
   matches_selector (nodes sample_page ! 0) \<and>
   (\<exists>s'. filterApply_selector (JStr (lit ''master'')) (JBool False) sample_page = Inr s' \<and>
      \<not> is_hidden (nodes s' ! 0))"
  using filterApply_master_shows_all [of 0 sample_doc sample_page 0]
  by (simp add: sample_facts sample_matches sample_hidden)

section \<open>Clearing the filter\<close>

text \<open>
  Claim C5. From any state, \<open>filterClear()\<close> takes the class \<open>hidden\<close> off every tagged
  element of the document and leaves the element's tag and attributes as they are, so
  that the query for the tagged elements, run again afterwards, finds no element that
  carries \<open>hidden\<close>. In the frame these are the elements with either attribute, in the
  outer page (which posts to its frame first, so the frame must exist) the list items
  its query selects.
\<close>

theorem filterClear_shows_all:
  "(i < length doc \<and> matches_frame (doc ! i) \<longrightarrow>
      \<not> is_hidden (filterClear_frame doc ! i) \<and>
      localName (filterClear_frame doc ! i) = localName (doc ! i) \<and>
      attributes (filterClear_frame doc ! i) = attributes (doc ! i)) \<and>
   length (filterClear_frame doc) = length doc \<and>
   filter (\<lambda>k. is_hidden (filterClear_frame doc ! k))
     (querySelectorAll matches_frame (filterClear_frame doc)) = [] \<and>
   (iframeClass s \<noteq> None \<and> j < length (nodes s) \<and> matches_selector (nodes s ! j) \<longrightarrow>
      (\<exists>s'. filterClear_selector s = Inr s' \<and>
         \<not> is_hidden (nodes s' ! j) \<and>
         localName (nodes s' ! j) = localName (nodes s ! j) \<and>
         attributes (nodes s' ! j) = attributes (nodes s ! j) \<and>
         length (nodes s') = length (nodes s) \<and>
         filter (\<lambda>k. is_hidden (nodes s' ! k))
           (querySelectorAll matches_selector (nodes s')) = []))"
  by (auto simp add: filterClear_frame_map filterClear_selector_eq filter_empty_conv
      set_querySelectorAll)

theorem filterClear_shows_all_witness:
  "0 < length sample_doc \<and> matches_frame (sample_doc ! 0) \<and> is_hidden (sample_doc ! 0) \<and>
   \<not> is_hidden (filterClear_frame sample_doc ! 0) \<and>
   attributes (filterClear_frame sample_doc ! 0) = attributes (sample_doc ! 0) \<and>
   length (filterClear_frame sample_doc) = length sample_doc \<and>
   filter (\<lambda>k. is_hidden (filterClear_frame sample_doc ! k))
     (querySelectorAll matches_frame (filterClear_frame sample_doc)) = [] \<and>
   iframeClass sample_page \<noteq> None \<and> 0 < length (nodes sample_page) \<and>
   matches_selector (nodes sample_page ! 0) \<and> is_hidden (nodes sample_page ! 0) \<and>
   (\<exists>s'. filterClear_selector sample_page = Inr s' \<and> \<not> is_hidden (nodes s' ! 0) \<and>
      attributes (nodes s' ! 0) = attributes (nodes sample_page ! 0) \<and>
      filter (\<lambda>k. is_hidden (nodes s' ! k)) (querySelectorAll matches_selector (nodes s')) = [])"
  using filterClear_shows_all [of 0 sample_doc sample_page 0]
  by (auto simp add: sample_facts sample_matches sample_hidden)

section \<open>Idempotence\<close>

text \<open>
  Claim C6. For every version, every delta flag and every starting state, applying
  \<open>filterApply(v, d)\<close> twice in a row leaves the elements as applying it once does. In
  the frame the two documents are equal. In the outer page the second call succeeds
  where the first did and leaves the same elements (it posts its message again); where
  the page has no frame the call throws before it touches anything.
\<close>

theorem filterApply_idempotent:
  "filterApply_frame v d (filterApply_frame v d doc) = filterApply_frame v d doc \<and>
   (iframeClass s \<noteq> None \<longrightarrow>
      (\<exists>s1 s2. filterApply_selector v d s = Inr s1 \<and> filterApply_selector v d s1 = Inr s2 \<and>
         nodes s2 = nodes s1)) \<and>
   (iframeClass s = None \<longrightarrow> filterApply_selector v d s = Inl (TypeError, s))"
  by (auto simp add: filterApply_frame_map filterApply_selector_eq)

theorem filterApply_idempotent_witness:
  "filterApply_frame (JStr (lit ''1.2'')) (JBool False)
     (filterApply_frame (JStr (lit ''1.2'')) (JBool False) sample_doc) =
   filterApply_frame (JStr (lit ''1.2'')) (JBool False) sample_doc \<and>
   iframeClass sample_page \<noteq> None \<and>
   (\<exists>s1 s2. filterApply_selector (JStr (lit ''1.2'')) (JBool False) sample_page = Inr s1 \<and>
      filterApply_selector (JStr (lit ''1.2'')) (JBool False) s1 = Inr s2 \<and> nodes s2 = nodes s1)"
  using filterApply_idempotent [of "JStr (lit ''1.2'')" "JBool False" sample_doc sample_page]
  by (simp add: sample_facts)

section \<open>Elements without version attributes\<close>

text \<open>
  Claim C7. An element that carries neither \<open>data-version-first\<close> nor
  \<open>data-version-last\<close> is not touched by \<open>filterClear()\<close> or \<open>filterApply(version, delta)\<close>
  of either controller: after the call, returned or thrown, it is the element it was,
  with the class list it had.
\<close>

theorem untagged_untouched:
  "(i < length doc \<and> \<not> hasAttribute (doc ! i) (lit ''data-version-first'') \<and>
      \<not> hasAttribute (doc ! i) (lit ''data-version-last'') \<longrightarrow>
      filterClear_frame doc ! i = doc ! i \<and> filterApply_frame version delta doc ! i = doc ! i) \<and>
   (j < length (nodes s) \<and> \<not> hasAttribute (nodes s ! j) (lit ''data-version-first'') \<and>
      \<not> hasAttribute (nodes s ! j) (lit ''data-version-last'') \<longrightarrow>
      nodes (state_of (filterClear_selector s)) ! j = nodes s ! j \<and>
      nodes (state_of (filterApply_selector version delta s)) ! j = nodes s ! j)"
  by (auto simp add: filterClear_frame_map filterApply_frame_map filterClear_selector_eq
      filterApply_selector_eq state_of_def matches_frame_def matches_selector_def
      split: option.splits)

theorem untagged_untouched_witness:
  "2 < length sample_doc \<and> \<not> hasAttribute (sample_doc ! 2) (lit ''data-version-first'') \<and>
   \<not> hasAttribute (sample_doc ! 2) (lit ''data-version-last'') \<and>
   filterClear_frame sample_doc ! 2 = sample_doc ! 2 \<and>
   filterApply_frame (JStr (lit ''master'')) (JBool False) sample_doc ! 2 = sample_doc ! 2 \<and>
   is_hidden (filterClear_frame sample_doc ! 2) \<and>
   2 < length (nodes sample_page) \<and>
   nodes (state_of (filterClear_selector sample_page)) ! 2 = nodes sample_page ! 2 \<and>
   nodes (state_of (filterApply_selector (JStr (lit ''master'')) (JBool False) sample_page)) ! 2 =
     nodes sample_page ! 2"
  using untagged_untouched [of 2 sample_doc "JStr (lit ''master'')" "JBool False" 2 sample_page]
  by (simp add: sample_facts sample_matches sample_hidden)

section \<open>One visibility rule in two scripts\<close>



section \<open>Messages the handlers do not recognise\<close>




text \<open>
  A payload that is \<open>undefined\<close> or \<open>null\<close> throws in both handlers, whatever the state.
\<close>

lemma message_nullish_payload_throws:
  "message_frame (Value JUndefined) w = Inl (TypeError, w)"
  "message_frame (Value JNull) w = Inl (TypeError, w)"
  "message_selector (Value JUndefined) s = Inl (TypeError, s)"
  "message_selector (Value JNull) s = Inl (TypeError, s)"
  by (simp_all add: message_frame_def message_selector_def get_property_def)

text \<open>
  A \<open>method\<close> that \<open>ToPrimitive\<close> turns into a recognised string is handled as the
  string is.
\<close>

lemma message_frame_converted_method:
  "get_property data (lit ''method'') = Inr m \<Longrightarrow>
   ToPrimitive HintDefault m = JStr (lit ''filterClear'') \<Longrightarrow>
   message_frame data w = Inr (w\<lparr>document := filterClear_frame (document w)\<rparr>)"
  by (simp add: message_frame_def IsLooselyEqual_JStr_iff StringToNumber_names
      del: IsLooselyEqual.simps)

section \<open>A filterApply message without version and delta\<close>

text \<open>
  Claim C10. When the frame receives \<open>{method: "filterApply"}\<close> with no \<open>version\<close> and
  no \<open>delta\<close> field, it calls \<open>filterApply(undefined, undefined)\<close>: the cumulative branch
  runs, every comparison with \<open>undefined\<close> is false, and every tagged element of the
  frame document ends up hidden.
\<close>

theorem filterApply_without_version_hides_all:
  "map_of props (lit ''method'') = Some (JStr (lit ''filterApply'')) \<and>
   map_of props (lit ''version'') = None \<and> map_of props (lit ''delta'') = None \<longrightarrow>
     message_frame (Object props) w =
       Inr (w\<lparr>document := filterApply_frame JUndefined JUndefined (document w)\<rparr>) \<and>
     (i < length (document w) \<and> matches_frame (document w ! i) \<longrightarrow>
        \<not> show_frame JUndefined JUndefined (document w ! i) \<and>
        is_hidden (filterApply_frame JUndefined JUndefined (document w) ! i))"
  by (auto simp add: message_frame_def get_property_def IsLooselyEqual_JStr_iff
      StringToNumber_names filterApply_frame_map show_frame_undefined names_distinct)

theorem filterApply_without_version_hides_all_witness:
  "map_of [(lit ''method'', JStr (lit ''filterApply''))] (lit ''method'') =
     Some (JStr (lit ''filterApply'')) \<and>
   map_of [(lit ''method'', JStr (lit ''filterApply''))] (lit ''version'') = None \<and>
   map_of [(lit ''method'', JStr (lit ''filterApply''))] (lit ''delta'') = None \<and>
   message_frame (Object [(lit ''method'', JStr (lit ''filterApply''))]) sample_frame =
     Inr (sample_frame\<lparr>document := filterApply_frame JUndefined JUndefined (document sample_frame)\<rparr>) \<and>
   1 < length (document sample_frame) \<and> matches_frame (document sample_frame ! 1) \<and>
   \<not> is_hidden (document sample_frame ! 1) \<and>
   is_hidden (filterApply_frame JUndefined JUndefined (document sample_frame) ! 1)"
  using filterApply_without_version_hides_all
    [of "[(lit ''method'', JStr (lit ''filterApply''))]" sample_frame 1]
  by (simp add: names_distinct sample_facts sample_matches sample_hidden)

section \<open>The two documents after an update\<close>

text \<open>
  When the controls and the frame are there, \<open>update\<close> succeeds, and once the frame has
  handled the messages \<open>update\<close> posted, every element either query selects is hidden
  exactly when the visibility rule, at the selected version and the delta flag in
  force, does not show it; every other element keeps the visibility it had.
\<close>

lemma update_synchronises:
  "tags s = Some selection \<and> viewModeDelta s = Some vmd \<and> viewModeDeltaLbl s \<noteq> None \<and>
   iframeClass s = Some queue \<and> i < length (document w) \<and> j < length (nodes s) \<longrightarrow>
     (\<exists>s' msgs. update s = Inr s' \<and> iframeClass s' = Some (queue @ msgs) \<and>
        is_hidden (document (deliver msgs w) ! i) =
          (if matches_frame (document w ! i)
           then \<not> show_frame (JStr (tags_value selection)) (effective_delta selection vmd)
                    (document w ! i)
           else is_hidden (document w ! i)) \<and>
        is_hidden (nodes s' ! j) =
          (if matches_selector (nodes s ! j)
           then \<not> show_selector (JStr (tags_value selection)) (effective_delta selection vmd)
                    (nodes s ! j)
           else is_hidden (nodes s ! j)))"
  by (auto simp add: update_def filterClear_selector_eq filterApply_selector_eq effective_delta_def
      delta_argument_def message_frame_filterClear message_frame_filterApply
      filterApply_frame_map filterClear_frame_map Let_def)

lemma update_synchronises_sample:
  "is_hidden (document sample_frame ! 0) \<and> is_hidden (nodes sample_page ! 0) \<and>
   (\<exists>s' msgs. update sample_page = Inr s' \<and> iframeClass s' = Some msgs \<and>
      \<not> is_hidden (document (deliver msgs sample_frame) ! 0) \<and> \<not> is_hidden (nodes s' ! 0))"
  using update_synchronises [of sample_page
      "\<lparr>tags_value = lit ''1.2'', tags_onchange = Some CallUpdate\<rparr>"
      "\<lparr>delta_disabled = False, delta_checked = False, delta_onchange = Some CallUpdate\<rparr>"
      "[]" 0 sample_frame 0]
  by (simp add: sample_controls sample_facts sample_matches sample_hidden sample_shows
      effective_delta_def names_distinct)

end
